theory Spec2Isabelle
  imports Complex_Main "HOL-Library.AList" "HOL-Library.Char_ord" "HOL-Library.List_Lexorder"
    "HOL-Library.Multiset"
begin

section \<open>S3-stat.py: bucket sizes from CloudWatch metrics\<close>

text \<open>
  The script lists the buckets of an account, finds the region of each, sums the latest
  \<open>BucketSizeBytes\<close> datapoint of every storage type, and prints the buckets by size, the
  totals per region and the grand total.

  Modelling decisions.
  \<^item> The AWS services are a \<open>world\<close>: a record of functions giving the answer of each call.
    A call either raises (\<open>Inl\<close> of an exception) or returns.
  \<^item> Exceptions are values of \<open>exn\<close>. \<open>ClientError\<close> and \<open>NoCredentialsError\<close> are the two
    botocore classes the script names, \<open>OtherException\<close> is any other subclass of
    \<open>Exception\<close> (a connection error, a \<open>KeyError\<close> on a malformed response), and
    \<open>KeyboardInterrupt\<close> stands for the exceptions that are not subclasses of \<open>Exception\<close>.
  \<^item> The mutable dictionary \<open>cloudwatch_clients\<close> and the printed warnings are fields of an
    explicit state. A client handle is the index of the constructor call that made it, so
    two constructor calls never give the same handle.
  \<^item> Numbers are exact rationals. The metric averages are finite floats, every finite float is
    a rational, and dividing a float of magnitude at least 1024 by 1024 is exact in binary
    floating point; sums are taken exactly (they are exact in floating point for integral
    byte counts below \<open>2 ^ 53\<close>). Negative zero, infinities and NaN are not represented.
  \<^item> Only the warnings are kept of what the script prints before the report; the report is
    returned as data (the lines are rendered with \<open>format_size\<close> when printed).
\<close>

subsection \<open>Exceptions, the world and the state\<close>

datatype exn =
    ClientError string
  | NoCredentialsError
  | OtherException string
  | KeyboardInterrupt

fun is_Exception :: "exn \<Rightarrow> bool" where
  "is_Exception KeyboardInterrupt = False"
| "is_Exception _ = True"

fun is_ClientError :: "exn \<Rightarrow> bool" where
  "is_ClientError (ClientError _) = True"
| "is_ClientError _ = False"

record datapoint =
  Timestamp :: int
  Average :: rat

record bucket =
  Name :: string
  CreationDate :: int

record world =
  list_buckets :: "exn + bucket list"
  get_bucket_location :: "string \<Rightarrow> exn + string option"
  boto3_client :: "nat \<Rightarrow> string \<Rightarrow> exn option"
  get_metric_statistics :: "nat \<Rightarrow> string \<Rightarrow> string \<Rightarrow> exn + datapoint list"

text \<open>
  \<open>list_buckets w\<close> is the outcome of creating the S3 client and listing the buckets.
  \<open>get_bucket_location w b\<close> is the \<open>LocationConstraint\<close> of the response (\<open>None\<close> for
  Python's \<open>None\<close>). \<open>boto3_client w n r\<close> is the outcome of the \<open>n\<close>-th call of
  \<open>boto3.client('cloudwatch', region_name=r)\<close>: \<open>None\<close> when it returns a client, whose
  handle is then \<open>n\<close>. \<open>get_metric_statistics w c b t\<close> is the list of datapoints that client
  \<open>c\<close> returns for bucket \<open>b\<close> and storage type \<open>t\<close>.
\<close>

datatype event =
    RegionWarning string exn
  | SizeWarning string exn

record state =
  cloudwatch_clients :: "string \<rightharpoonup> nat"
  client_calls :: "string list"
  created :: "(string \<times> nat) list"
  queries :: "(nat \<times> string \<times> string) list"
  printed :: "event list"

text \<open>
  \<open>client_calls\<close> lists the regions of all constructor calls made so far, \<open>created\<close> the
  region and handle of those that returned a client, \<open>queries\<close> the metric queries issued
  (client, bucket, storage type), \<open>printed\<close> the warnings.
\<close>

definition init_state :: state where
  "init_state = \<lparr>cloudwatch_clients = Map.empty, client_calls = [], created = [],
                 queries = [], printed = []\<rparr>"

subsection \<open>\<open>get_bucket_region\<close>\<close>

definition get_bucket_region :: "world \<Rightarrow> state \<Rightarrow> string \<Rightarrow> (exn + string) \<times> state" where
  "get_bucket_region w s bucket_name =
     (case get_bucket_location w bucket_name of
        Inr region \<Rightarrow>
          (case region of None \<Rightarrow> (Inr ''us-east-1'', s) | Some r \<Rightarrow> (Inr r, s))
      | Inl e \<Rightarrow>
          (if is_ClientError e
           then (Inr ''us-east-1'', s\<lparr>printed := printed s @ [RegionWarning bucket_name e]\<rparr>)
           else (Inl e, s)))"

subsection \<open>Sorting with \<open>reverse=True\<close>\<close>

text \<open>
  CPython sorts with \<open>reverse=True\<close> by reversing the list, sorting it stably in ascending
  order of the key, and reversing the result.
\<close>

definition sort_reverse :: "('a \<Rightarrow> 'k::linorder) \<Rightarrow> 'a list \<Rightarrow> 'a list" where
  "sort_reverse key xs = rev (sort_key key (rev xs))"

subsection \<open>\<open>get_bucket_size\<close>\<close>

definition storage_types :: "string list" where
  "storage_types =
     [''StandardStorage'',
      ''StandardIAStorage'',
      ''IntelligentTieringFAStorage'',
      ''IntelligentTieringIAStorage'',
      ''IntelligentTieringAAStorage'',
      ''IntelligentTieringAIAStorage'',
      ''IntelligentTieringDAAStorage'',
      ''OneZoneIAStorage'',
      ''ReducedRedundancyStorage'',
      ''GlacierInstantRetrievalStorage'',
      ''GlacierStorage'',
      ''DeepArchiveStorage'',
      ''GlacierStagingStorage'',
      ''GlacierObjectOverhead'',
      ''GlacierS3ObjectOverhead'']"

text \<open>Lines 53 to 56: the client of the region, constructed when the region has none.\<close>

definition acquire_client :: "world \<Rightarrow> state \<Rightarrow> string \<Rightarrow> (exn + nat) \<times> state" where
  "acquire_client w s bucket_region =
     (case cloudwatch_clients s bucket_region of
        Some c \<Rightarrow> (Inr c, s)
      | None \<Rightarrow>
          (let n = length (client_calls s);
               s1 = s\<lparr>client_calls := client_calls s @ [bucket_region]\<rparr>
           in case boto3_client w n bucket_region of
                Some e \<Rightarrow> (Inl e, s1)
              | None \<Rightarrow>
                  (Inr n, s1\<lparr>cloudwatch_clients := (cloudwatch_clients s1)(bucket_region \<mapsto> n),
                              created := created s1 @ [(bucket_region, n)]\<rparr>)))"

text \<open>What one response adds to the total: the average of the latest datapoint.\<close>

definition latest_average :: "datapoint list \<Rightarrow> rat" where
  "latest_average Datapoints =
     (if Datapoints \<noteq> []
      then (case sort_reverse Timestamp Datapoints of
              [] \<Rightarrow> 0
            | d # _ \<Rightarrow> Average d)
      else 0)"

text \<open>The loop over the storage types, lines 83 to 105.\<close>

fun query_loop ::
  "world \<Rightarrow> nat \<Rightarrow> string \<Rightarrow> string list \<Rightarrow> rat \<Rightarrow> state \<Rightarrow> (exn + rat) \<times> state" where
  "query_loop w c bucket_name [] total_size s = (Inr total_size, s)"
| "query_loop w c bucket_name (storage_type # rest) total_size s =
     (let s1 = s\<lparr>queries := queries s @ [(c, bucket_name, storage_type)]\<rparr>
      in case get_metric_statistics w c bucket_name storage_type of
           Inr Datapoints \<Rightarrow>
             query_loop w c bucket_name rest (total_size + latest_average Datapoints) s1
         | Inl e \<Rightarrow>
             (if is_ClientError e then query_loop w c bucket_name rest total_size s1
              else (Inl e, s1)))"

text \<open>The body of the outer \<open>try\<close>, then the handler \<open>except Exception\<close>.\<close>

definition get_bucket_size_body ::
  "world \<Rightarrow> state \<Rightarrow> string \<Rightarrow> string \<Rightarrow> (exn + rat) \<times> state" where
  "get_bucket_size_body w s bucket_name bucket_region =
     (case acquire_client w s bucket_region of
        (Inl e, s1) \<Rightarrow> (Inl e, s1)
      | (Inr cloudwatch_client, s1) \<Rightarrow>
          query_loop w cloudwatch_client bucket_name storage_types 0 s1)"

definition get_bucket_size ::
  "world \<Rightarrow> state \<Rightarrow> string \<Rightarrow> string \<Rightarrow> (exn + rat) \<times> state" where
  "get_bucket_size w s bucket_name bucket_region =
     (case get_bucket_size_body w s bucket_name bucket_region of
        (Inr total_size, s1) \<Rightarrow> (Inr total_size, s1)
      | (Inl e, s1) \<Rightarrow>
          (if is_Exception e
           then (Inr 0, s1\<lparr>printed := printed s1 @ [SizeWarning bucket_name e]\<rparr>)
           else (Inl e, s1)))"

subsection \<open>\<open>format_size\<close>\<close>

text \<open>
  The format \<open>.2f\<close> rounds the exact value to two decimals, ties to the even neighbour, and
  prints the sign, the integer part, a point and two digits.
\<close>

definition round_half_even :: "rat \<Rightarrow> int" where
  "round_half_even q =
     (let f = \<lfloor>q\<rfloor>; d = q - of_int f
      in if d < 1 / 2 then f
         else if 1 / 2 < d then f + 1
         else if even f then f else f + 1)"

definition digit_char :: "nat \<Rightarrow> char" where
  "digit_char d = ''0123456789'' ! d"

fun dec_digits :: "nat \<Rightarrow> string" where
  "dec_digits n =
     (if n < 10 then [digit_char n] else dec_digits (n div 10) @ [digit_char (n mod 10)])"

declare dec_digits.simps [simp del]

definition fmt_2f :: "rat \<Rightarrow> string" where
  "fmt_2f x =
     (let n = nat (round_half_even (\<bar>x\<bar> * 100))
      in (if x < 0 then ''-'' else '''') @ dec_digits (n div 100) @ ''.''
           @ [digit_char (n mod 100 div 10), digit_char (n mod 10)])"

fun format_loop :: "rat \<Rightarrow> string list \<Rightarrow> string" where
  "format_loop size_bytes [] = fmt_2f size_bytes @ '' EB''"
| "format_loop size_bytes (unit # units) =
     (if size_bytes < 1024 then fmt_2f size_bytes @ '' '' @ unit
      else format_loop (size_bytes / 1024) units)"

definition unit_labels :: "string list" where
  "unit_labels = [''B'', ''KB'', ''MB'', ''GB'', ''TB'', ''PB'']"

definition format_size :: "rat \<Rightarrow> string" where
  "format_size size_bytes = format_loop size_bytes unit_labels"

subsection \<open>\<open>main\<close>\<close>

text \<open>
  The dictionaries appended to \<open>bucket_sizes\<close>; the key \<open>size\<close> is the field \<open>bsize\<close>, and
  the keys \<open>count\<close> and \<open>size\<close> of an entry of \<open>region_stats\<close> are \<open>rcount\<close> and \<open>rsize\<close>.
\<close>

record bucket_record =
  name :: string
  bsize :: rat
  region :: string
  created_at :: int


text \<open>
  The dictionary \<open>region_stats\<close>, lines 202 to 208, as an association list in insertion
  order: a new region is appended with count and size zero, then its entry is increased.
\<close>

record region_stat =
  rcount :: nat
  rsize :: rat

fun region_loop ::
  "bucket_record list \<Rightarrow> (string \<times> region_stat) list \<Rightarrow> (string \<times> region_stat) list" where
  "region_loop [] region_stats = region_stats"
| "region_loop (item # items) region_stats =
     (let r = region item;
          rs1 = (case map_of region_stats r of
                   None \<Rightarrow> AList.update r \<lparr>rcount = 0, rsize = 0\<rparr> region_stats
                 | Some _ \<Rightarrow> region_stats);
          rs2 = AList.map_entry r (\<lambda>st. st\<lparr>rcount := rcount st + 1\<rparr>) rs1;
          rs3 = AList.map_entry r (\<lambda>st. st\<lparr>rsize := rsize st + bsize item\<rparr>) rs2
      in region_loop items rs3)"

text \<open>The lines of the per-region summary, in the order of \<open>sorted(region_stats.keys())\<close>.\<close>

record region_rollup =
  rollup_region :: string
  bucketCount :: nat
  totalSizeBytes :: rat

definition region_lines :: "(string \<times> region_stat) list \<Rightarrow> region_rollup list" where
  "region_lines region_stats =
     List.map_filter
       (\<lambda>r. map_option
               (\<lambda>stats. \<lparr>rollup_region = r, bucketCount = rcount stats,
                          totalSizeBytes = rsize stats\<rparr>)
               (map_of region_stats r))
       (sort (map fst region_stats))"





subsection \<open>The sum the specification describes\<close>

text \<open>
  \<open>contribution\<close> is what one storage type adds when its query is allowed to fail: the
  latest average of the response, and zero for a query that raises. \<open>spec_bucket_size\<close>
  follows the words of the specification, "a dimension whose query fails or returns no data
  contributes zero": the sum of the contributions of all storage types. It is compared with
  \<open>get_bucket_size\<close> below.
\<close>

definition contribution :: "world \<Rightarrow> nat \<Rightarrow> string \<Rightarrow> string \<Rightarrow> rat" where
  "contribution w c bucket_name storage_type =
     (case get_metric_statistics w c bucket_name storage_type of
        Inr Datapoints \<Rightarrow> latest_average Datapoints
      | Inl e \<Rightarrow> 0)"

definition spec_bucket_size :: "world \<Rightarrow> nat \<Rightarrow> string \<Rightarrow> rat" where
  "spec_bucket_size w c bucket_name = sum_list (map (contribution w c bucket_name) storage_types)"

subsection \<open>Counts and sizes by region\<close>



subsection \<open>The invariant of the client dictionary\<close>

text \<open>
  \<open>region_of\<close> is the result of \<open>get_bucket_region\<close>, which does not depend on the state.
  \<open>cache_inv w B s\<close> holds when no region has two constructed clients, the dictionary holds
  exactly the constructed clients, every constructed client is for the region of a bucket
  of \<open>B\<close>, and every query was issued with the client of the region of its bucket.
\<close>

definition region_of :: "world \<Rightarrow> string \<Rightarrow> exn + string" where
  "region_of w bucket_name = fst (get_bucket_region w init_state bucket_name)"

definition cache_inv :: "world \<Rightarrow> string set \<Rightarrow> state \<Rightarrow> bool" where
  "cache_inv w B s \<longleftrightarrow>
     distinct (map fst (created s))
   \<and> cloudwatch_clients s = map_of (created s)
   \<and> (\<forall>(r, c)\<in>set (created s). \<exists>b\<in>B. region_of w b = Inr r)
   \<and> (\<forall>(c, b, t)\<in>set (queries s). \<exists>r. region_of w b = Inr r \<and> map_of (created s) r = Some c)"

subsection \<open>Example worlds\<close>

text \<open>
  \<open>quiet_world\<close> has no bucket, reports no location constraint and no datapoint, and
  constructs every client. The other worlds change one service: an empty location
  constraint, a lookup that fails with a connection error or with a \<open>ClientError\<close>, a
  metric query that times out, and a bucket with data in two storage types.
\<close>

definition quiet_world :: world where
  "quiet_world = \<lparr>list_buckets = Inr [], get_bucket_location = (\<lambda>b. Inr None),
                   boto3_client = (\<lambda>n r. None), get_metric_statistics = (\<lambda>c b t. Inr [])\<rparr>"

definition empty_location_world :: world where
  "empty_location_world = quiet_world\<lparr>get_bucket_location := (\<lambda>b. Inr (Some []))\<rparr>"

definition unreachable_world :: world where
  "unreachable_world =
     quiet_world\<lparr>get_bucket_location := (\<lambda>b. Inl (OtherException ''EndpointConnectionError''))\<rparr>"

definition denied_world :: world where
  "denied_world = quiet_world\<lparr>get_bucket_location := (\<lambda>b. Inl (ClientError ''AccessDenied''))\<rparr>"

definition timeout_world :: world where
  "timeout_world =
     quiet_world\<lparr>get_metric_statistics :=
       (\<lambda>c b t. if t = ''StandardStorage'' then Inr [\<lparr>Timestamp = 1, Average = 100\<rparr>]
                else if t = ''StandardIAStorage'' then Inl (OtherException ''ReadTimeoutError'')
                else Inr [])\<rparr>"

definition sparse_world :: world where
  "sparse_world =
     quiet_world\<lparr>get_metric_statistics :=
       (\<lambda>c b t. if t = ''StandardStorage''
                  then Inr [\<lparr>Timestamp = 1, Average = 100\<rparr>, \<lparr>Timestamp = 3, Average = 300\<rparr>,
                            \<lparr>Timestamp = 2, Average = 200\<rparr>]
                else if t = ''GlacierStorage'' then Inl (ClientError ''InvalidParameterValue'')
                else if t = ''DeepArchiveStorage'' then Inr [\<lparr>Timestamp = 2, Average = 50\<rparr>]
                else Inr [])\<rparr>"

text \<open>
  \<open>scenario_world\<close> is the scenario of the specification: three buckets of 500, 1500 and 0
  bytes, the first and the third in the default region, the second in another one.
\<close>

definition scenario_buckets :: "bucket list" where
  "scenario_buckets = [\<lparr>Name = ''alpha'', CreationDate = 1\<rparr>,
                       \<lparr>Name = ''beta'', CreationDate = 2\<rparr>,
                       \<lparr>Name = ''gamma'', CreationDate = 3\<rparr>]"

definition scenario_world :: world where
  "scenario_world =
     \<lparr>list_buckets = Inr scenario_buckets,
      get_bucket_location = (\<lambda>b. if b = ''beta'' then Inr (Some ''eu-west-1'') else Inr None),
      boto3_client = (\<lambda>n r. None),
      get_metric_statistics =
        (\<lambda>c b t. if t = ''StandardStorage'' \<and> b = ''alpha''
                   then Inr [\<lparr>Timestamp = 1, Average = 500\<rparr>]
                 else if t = ''StandardStorage'' \<and> b = ''beta''
                   then Inr [\<lparr>Timestamp = 1, Average = 1000\<rparr>]
                 else if t = ''GlacierStorage'' \<and> b = ''beta''
                   then Inr [\<lparr>Timestamp = 1, Average = 400\<rparr>, \<lparr>Timestamp = 2, Average = 500\<rparr>]
                 else Inr [])\<rparr>"

section \<open>The size formatter\<close>

lemma digit_char_is_digit: "d < 10 \<Longrightarrow> digit_char d \<in> set ''0123456789''"
  unfolding digit_char_def by (rule nth_mem) simp

lemma dec_digits_digits: "set (dec_digits n) \<subseteq> set ''0123456789''"
proof (induction n rule: dec_digits.induct)
  case (1 n)
  show ?case
  proof (cases "n < 10")
    case True
    then show ?thesis
      using digit_char_is_digit [of n] by (subst dec_digits.simps) simp
  next
    case False
    have "digit_char (n mod 10) \<in> set ''0123456789''"
      by (rule digit_char_is_digit) simp
    with False 1 show ?thesis
      by (subst dec_digits.simps) simp
  qed
qed

lemma dec_digits_nonempty: "dec_digits n \<noteq> []"
  by (subst dec_digits.simps) simp

lemma fmt_2f_shape:
  assumes "0 \<le> x"
  shows "\<exists>ip d1 d2. fmt_2f x = ip @ ''.'' @ [d1, d2] \<and> ip \<noteq> []
           \<and> set ip \<subseteq> set ''0123456789''
           \<and> d1 \<in> set ''0123456789'' \<and> d2 \<in> set ''0123456789''"
proof -
  define n where "n = nat (round_half_even (\<bar>x\<bar> * 100))"
  have eq: "fmt_2f x = dec_digits (n div 100) @ ''.'' @ [digit_char (n mod 100 div 10), digit_char (n mod 10)]"
    using assms by (simp add: fmt_2f_def n_def Let_def)
  have d1: "digit_char (n mod 100 div 10) \<in> set ''0123456789''"
    by (rule digit_char_is_digit) (simp add: div_less_iff_less_mult)
  have d2: "digit_char (n mod 10) \<in> set ''0123456789''"
    by (rule digit_char_is_digit) simp
  show ?thesis
    using eq d1 d2 dec_digits_nonempty [of "n div 100"] dec_digits_digits [of "n div 100"]
    by blast
qed

lemma format_loop_scale:
  "k < length units \<Longrightarrow> (0 < k \<longrightarrow> 1024 ^ k \<le> x) \<Longrightarrow> x < 1024 ^ (k + 1)
     \<Longrightarrow> format_loop x units = fmt_2f (x / 1024 ^ k) @ '' '' @ units ! k"
proof (induction units arbitrary: x k)
  case Nil
  then show ?case by simp
next
  case (Cons u units)
  show ?case
  proof (cases k)
    case 0
    with Cons.prems show ?thesis by simp
  next
    case (Suc k')
    have le: "1024 * 1024 ^ k' \<le> x" using Cons.prems(2) Suc by simp
    have "(1::rat) \<le> 1024 ^ k'" by (rule one_le_power) simp
    then have big: "1024 \<le> x" using le by linarith
    have a: "k' < length units" using Cons.prems(1) Suc by simp
    have b: "0 < k' \<longrightarrow> 1024 ^ k' \<le> x / 1024"
      using le by (simp add: le_divide_eq mult.commute)
    have c: "x / 1024 < 1024 ^ (k' + 1)"
      using Cons.prems(3) Suc by (simp add: divide_less_eq)
    have "format_loop (x / 1024) units = fmt_2f (x / 1024 / 1024 ^ k') @ '' '' @ units ! k'"
      by (rule Cons.IH [OF a b c])
    with big Suc show ?thesis by simp
  qed
qed

lemma format_loop_exhaust:
  "1024 ^ length units \<le> x \<Longrightarrow> format_loop x units = fmt_2f (x / 1024 ^ length units) @ '' EB''"
proof (induction units arbitrary: x)
  case Nil
  then show ?case by simp
next
  case (Cons u units)
  have le: "1024 * 1024 ^ length units \<le> x" using Cons.prems by simp
  have "(1::rat) \<le> 1024 ^ length units" by (rule one_le_power) simp
  then have big: "1024 \<le> x" using le by linarith
  have "1024 ^ length units \<le> x / 1024"
    using le by (simp add: le_divide_eq mult.commute)
  then have "format_loop (x / 1024) units = fmt_2f (x / 1024 / 1024 ^ length units) @ '' EB''"
    by (rule Cons.IH)
  with big show ?case by simp
qed

lemma format_loop_value:
  "0 \<le> x \<Longrightarrow> \<exists>y u. 0 \<le> y \<and> u \<in> set (units @ [''EB'']) \<and> format_loop x units = fmt_2f y @ '' '' @ u"
proof (induction units arbitrary: x)
  case Nil
  then show ?case by auto
next
  case (Cons u units)
  show ?case
  proof (cases "x < 1024")
    case True
    with Cons.prems show ?thesis by auto
  next
    case False
    have "0 \<le> x / 1024" using Cons.prems by simp
    from Cons.IH [OF this] obtain y v where
      "0 \<le> y" "v \<in> set (units @ [''EB''])" "format_loop (x / 1024) units = fmt_2f y @ '' '' @ v"
      by blast
    with False show ?thesis by auto
  qed
qed

lemma format_size_zero: "format_size 0 = ''0.00 B''" by code_simp
lemma format_size_1024: "format_size 1024 = ''1.00 KB''" by code_simp
lemma format_size_1536: "format_size 1536 = ''1.50 KB''" by code_simp
lemma format_size_pb: "format_size (1024 ^ 5) = ''1.00 PB''" by code_simp

text \<open>
  Claim C6. For every non-negative \<open>x\<close>, \<open>format_size\<close> divides by 1024 as long as the
  value is at least 1024 and labels are left: when \<open>1024 ^ k \<le> x < 1024 ^ (k + 1)\<close> with
  \<open>k < 6\<close> (for \<open>k = 0\<close>, when \<open>x < 1024\<close>) the result is \<open>x / 1024 ^ k\<close> with the
  \<open>k\<close>-th label of B, KB, MB, GB, TB, PB; from \<open>1024 ^ 6\<close> on it is \<open>x / 1024 ^ 6\<close> with
  the label EB. The number always has a non-empty integer part, a point and exactly two
  digits after it. The four values of the specification are as stated.
\<close>

theorem format_size_scaling:
  assumes "0 \<le> x"
  shows "(\<forall>k<6. (0 < k \<longrightarrow> 1024 ^ k \<le> x) \<and> x < 1024 ^ (k + 1)
            \<longrightarrow> format_size x = fmt_2f (x / 1024 ^ k) @ '' '' @ unit_labels ! k)
       \<and> (1024 ^ 6 \<le> x \<longrightarrow> format_size x = fmt_2f (x / 1024 ^ 6) @ '' EB'')
       \<and> (\<exists>ip d1 d2 u. format_size x = ip @ ''.'' @ [d1, d2] @ '' '' @ u \<and> ip \<noteq> []
             \<and> set (ip @ [d1, d2]) \<subseteq> set ''0123456789'' \<and> u \<in> set (unit_labels @ [''EB'']))
       \<and> format_size 0 = ''0.00 B'' \<and> format_size 1024 = ''1.00 KB''
       \<and> format_size 1536 = ''1.50 KB'' \<and> format_size (1024 ^ 5) = ''1.00 PB''"
proof -
  have len: "length unit_labels = 6" by (simp add: unit_labels_def)
  have a: "\<forall>k<6. (0 < k \<longrightarrow> 1024 ^ k \<le> x) \<and> x < 1024 ^ (k + 1)
            \<longrightarrow> format_size x = fmt_2f (x / 1024 ^ k) @ '' '' @ unit_labels ! k"
    unfolding format_size_def using format_loop_scale [of _ unit_labels x] len by simp
  have b: "1024 ^ 6 \<le> x \<longrightarrow> format_size x = fmt_2f (x / 1024 ^ 6) @ '' EB''"
    unfolding format_size_def using format_loop_exhaust [of unit_labels x] len by simp
  obtain y u where y: "0 \<le> y" "u \<in> set (unit_labels @ [''EB''])" "format_size x = fmt_2f y @ '' '' @ u"
    unfolding format_size_def using format_loop_value [OF assms, of unit_labels] by blast
  from fmt_2f_shape [OF y(1)] obtain ip d1 d2 where
    s: "fmt_2f y = ip @ ''.'' @ [d1, d2]" "ip \<noteq> []" "set ip \<subseteq> set ''0123456789''"
       "d1 \<in> set ''0123456789''" "d2 \<in> set ''0123456789''"
    by blast
  have c: "\<exists>ip d1 d2 u. format_size x = ip @ ''.'' @ [d1, d2] @ '' '' @ u \<and> ip \<noteq> []
             \<and> set (ip @ [d1, d2]) \<subseteq> set ''0123456789'' \<and> u \<in> set (unit_labels @ [''EB''])"
    apply (rule exI [of _ ip], rule exI [of _ d1], rule exI [of _ d2], rule exI [of _ u])
    using y(2,3) s by simp
  show ?thesis using a b c format_size_zero format_size_1024 format_size_1536 format_size_pb by blast
qed

text \<open>
  Claim C10. For every negative \<open>x\<close>, \<open>format_size\<close> returns at the first label: the
  result is \<open>x\<close> itself, not divided, rendered with a minus sign, an integer part and
  exactly two decimals, followed by the unit B.
\<close>

theorem format_size_negative:
  assumes "x < 0"
  shows "format_size x = fmt_2f x @ '' B''
       \<and> (\<exists>ip d1 d2. fmt_2f x = ''-'' @ ip @ ''.'' @ [d1, d2] \<and> ip \<noteq> []
             \<and> set (ip @ [d1, d2]) \<subseteq> set ''0123456789'')"
proof -
  have a: "format_size x = fmt_2f x @ '' B''"
    using assms by (simp add: format_size_def unit_labels_def)
  define n where "n = nat (round_half_even (\<bar>x\<bar> * 100))"
  have eq: "fmt_2f x = ''-'' @ dec_digits (n div 100) @ ''.'' @ [digit_char (n mod 100 div 10), digit_char (n mod 10)]"
    using assms by (simp add: fmt_2f_def n_def Let_def)
  have d1: "digit_char (n mod 100 div 10) \<in> set ''0123456789''"
    by (rule digit_char_is_digit) (simp add: div_less_iff_less_mult)
  have d2: "digit_char (n mod 10) \<in> set ''0123456789''"
    by (rule digit_char_is_digit) simp
  have "\<exists>ip d1 d2. fmt_2f x = ''-'' @ ip @ ''.'' @ [d1, d2] \<and> ip \<noteq> []
             \<and> set (ip @ [d1, d2]) \<subseteq> set ''0123456789''"
    apply (rule exI [of _ "dec_digits (n div 100)"])
    apply (rule exI [of _ "digit_char (n mod 100 div 10)"], rule exI [of _ "digit_char (n mod 10)"])
    using eq d1 d2 dec_digits_nonempty [of "n div 100"] dec_digits_digits [of "n div 100"]
    by simp
  with a show ?thesis by blast
qed

theorem format_size_negative_witness:
  "(- 3 / 2 :: rat) < 0 \<and> format_size (- 3 / 2) = ''-1.50 B''"
proof -
  have h: "(- 3 / 2 :: rat) < 0" by simp
  have "fmt_2f (- 3 / 2) = ''-1.50''" by code_simp
  with format_size_negative [OF h] h show ?thesis by simp
qed

theorem format_size_scaling_witness:
  "(0::rat) \<le> 1610612736 \<and> format_size 1610612736 = ''1.50 GB''
     \<and> (0::rat) \<le> 1024 ^ 6 \<and> format_size (1024 ^ 6) = ''1.00 EB''"
proof -
  have h: "(0::rat) \<le> 1610612736" by simp
  have v: "fmt_2f (3 / 2) = ''1.50''" by code_simp
  have "format_size 1610612736 = fmt_2f (1610612736 / 1024 ^ 3) @ '' '' @ unit_labels ! 3"
    using format_size_scaling [OF h, THEN conjunct1, rule_format, of 3] by simp
  then have a: "format_size 1610612736 = ''1.50 GB''"
    using v by (simp add: unit_labels_def)
  have h': "(0::rat) \<le> 1024 ^ 6" by simp
  have v': "fmt_2f 1 = ''1.00''" by code_simp
  have "format_size (1024 ^ 6) = fmt_2f (1024 ^ 6 / 1024 ^ 6) @ '' EB''"
    using format_size_scaling [OF h', THEN conjunct2, THEN conjunct1] by simp
  then have b: "format_size (1024 ^ 6) = ''1.00 EB''"
    using v' by simp
  show ?thesis using h a h' b by blast
qed

lemmas world_defs = quiet_world_def empty_location_world_def unreachable_world_def
  denied_world_def timeout_world_def sparse_world_def scenario_world_def

lemmas size_defs = get_bucket_size_def get_bucket_size_body_def acquire_client_def
  init_state_def storage_types_def latest_average_def sort_reverse_def

section \<open>The region resolver\<close>

text \<open>
  Claim C4 as stated fails for the empty string: the test is \<open>region is None\<close>, so an empty
  location constraint is returned as it is.
\<close>

theorem get_bucket_region_empty_counterexample:
  "get_bucket_location empty_location_world ''logs'' = Inr (Some [])
     \<and> fst (get_bucket_region empty_location_world init_state ''logs'') = Inr []"
  by (simp add: get_bucket_region_def world_defs)

text \<open>
  Claim C4, amended. When the lookup succeeds and reports no location constraint
  (\<open>None\<close>), \<open>get_bucket_region\<close> returns \<open>us-east-1\<close> and prints nothing; a constraint
  that is a string, the empty string included, is returned unchanged.
\<close>

theorem get_bucket_region_null:
  "(get_bucket_location w b = Inr None \<longrightarrow> get_bucket_region w s b = (Inr ''us-east-1'', s))
   \<and> (\<forall>r. get_bucket_location w b = Inr (Some r) \<longrightarrow> get_bucket_region w s b = (Inr r, s))"
  by (simp add: get_bucket_region_def)

theorem get_bucket_region_null_witness:
  "get_bucket_location quiet_world ''logs'' = Inr None
     \<and> get_bucket_region quiet_world init_state ''logs'' = (Inr ''us-east-1'', init_state)
     \<and> get_bucket_location empty_location_world ''logs'' = Inr (Some [])
     \<and> get_bucket_region empty_location_world init_state ''logs'' = (Inr [], init_state)"
proof -
  have a: "get_bucket_location quiet_world ''logs'' = Inr None"
    by (simp add: world_defs)
  have b: "get_bucket_location empty_location_world ''logs'' = Inr (Some [])"
    by (simp add: world_defs)
  show ?thesis
    using a b get_bucket_region_null [of quiet_world "''logs''" init_state]
      get_bucket_region_null [of empty_location_world "''logs''" init_state]
    by blast
qed

text \<open>
  Claim C5 as stated fails for an exception that is not a \<open>ClientError\<close>: it leaves
  \<open>get_bucket_region\<close>.
\<close>

theorem get_bucket_region_raises_counterexample:
  "get_bucket_location unreachable_world ''logs'' = Inl (OtherException ''EndpointConnectionError'')
     \<and> get_bucket_region unreachable_world init_state ''logs''
         = (Inl (OtherException ''EndpointConnectionError''), init_state)"
  by (simp add: get_bucket_region_def world_defs)

text \<open>
  Claim C5, amended. When the lookup raises a \<open>ClientError\<close>, \<open>get_bucket_region\<close> prints a
  warning and returns \<open>us-east-1\<close>; when it raises any other exception, the exception
  propagates to the caller and nothing is printed.
\<close>

theorem get_bucket_region_errors:
  assumes "get_bucket_location w b = Inl e"
  shows "(is_ClientError e \<longrightarrow>
            get_bucket_region w s b
              = (Inr ''us-east-1'', s\<lparr>printed := printed s @ [RegionWarning b e]\<rparr>))
       \<and> (\<not> is_ClientError e \<longrightarrow> get_bucket_region w s b = (Inl e, s))"
  using assms by (simp add: get_bucket_region_def)

theorem get_bucket_region_errors_witness:
  "get_bucket_location denied_world ''logs'' = Inl (ClientError ''AccessDenied'')
     \<and> fst (get_bucket_region denied_world init_state ''logs'') = Inr ''us-east-1''
     \<and> printed (snd (get_bucket_region denied_world init_state ''logs''))
          = [RegionWarning ''logs'' (ClientError ''AccessDenied'')]
     \<and> get_bucket_location unreachable_world ''logs'' = Inl (OtherException ''EndpointConnectionError'')
     \<and> fst (get_bucket_region unreachable_world init_state ''logs'')
          = Inl (OtherException ''EndpointConnectionError'')"
proof -
  have a: "get_bucket_location denied_world ''logs'' = Inl (ClientError ''AccessDenied'')"
    by (simp add: world_defs)
  have b: "get_bucket_location unreachable_world ''logs'' = Inl (OtherException ''EndpointConnectionError'')"
    by (simp add: world_defs)
  show ?thesis
    using a b get_bucket_region_errors [OF a, of init_state]
      get_bucket_region_errors [OF b, of init_state]
    by (simp add: init_state_def)
qed

section \<open>The bucket size resolver\<close>

lemma acquire_client_keeps:
  "acquire_client w s r = (res, s1) \<Longrightarrow> queries s1 = queries s \<and> printed s1 = printed s"
  by (auto simp: acquire_client_def Let_def split: option.splits)

lemma query_loop_ok:
  "(\<forall>t\<in>set ts. \<forall>e. get_metric_statistics w c b t = Inl e \<longrightarrow> is_ClientError e)
     \<Longrightarrow> query_loop w c b ts acc s
           = (Inr (acc + sum_list (map (contribution w c b) ts)),
              s\<lparr>queries := queries s @ map (\<lambda>t. (c, b, t)) ts\<rparr>)"
proof (induction ts arbitrary: acc s)
  case Nil
  then show ?case by simp
next
  case (Cons t ts)
  then show ?case
    by (cases "get_metric_statistics w c b t") (simp_all add: contribution_def Let_def add.assoc)
qed

lemma query_loop_fail:
  "\<exists>t\<in>set ts. \<exists>e. get_metric_statistics w c b t = Inl e \<and> \<not> is_ClientError e
     \<Longrightarrow> \<exists>e'. fst (query_loop w c b ts acc s) = Inl e' \<and> \<not> is_ClientError e'"
proof (induction ts arbitrary: acc s)
  case Nil
  then show ?case by simp
next
  case (Cons t ts)
  show ?case
  proof (cases "get_metric_statistics w c b t")
    case (Inl e)
    show ?thesis
    proof (cases "is_ClientError e")
      case True
      with Inl Cons.prems
      have "\<exists>t\<in>set ts. \<exists>e. get_metric_statistics w c b t = Inl e \<and> \<not> is_ClientError e"
        by auto
      from Cons.IH [OF this] Inl True show ?thesis by (simp add: Let_def)
    next
      case False
      with Inl show ?thesis by (simp add: Let_def)
    qed
  next
    case (Inr dps)
    with Cons.prems
    have "\<exists>t\<in>set ts. \<exists>e. get_metric_statistics w c b t = Inl e \<and> \<not> is_ClientError e"
      by auto
    from Cons.IH [OF this] Inr show ?thesis by (simp add: Let_def)
  qed
qed

lemma get_bucket_size_ok:
  assumes "acquire_client w s r = (Inr c, s1)"
    and "\<forall>t\<in>set storage_types. \<forall>e. get_metric_statistics w c b t = Inl e \<longrightarrow> is_ClientError e"
  shows "get_bucket_size w s b r
           = (Inr (spec_bucket_size w c b),
              s1\<lparr>queries := queries s1 @ map (\<lambda>t. (c, b, t)) storage_types\<rparr>)"
  using assms(1) query_loop_ok [OF assms(2), of 0 s1]
  by (simp add: get_bucket_size_def get_bucket_size_body_def spec_bucket_size_def)

text \<open>Claim C1 as stated fails: the list has not 14 elements.\<close>

theorem storage_types_count_counterexample: "length storage_types \<noteq> 14"
  by (simp add: storage_types_def)

text \<open>
  Claim C1, amended. \<open>storage_types\<close> is a fixed list of 15 distinct values, and when the
  client of the region is acquired and no query raises an exception other than
  \<open>ClientError\<close>, \<open>get_bucket_size\<close> issues exactly one query per element, in the order of
  the list, with that client and for that bucket.
\<close>

theorem storage_types_probe:
  assumes "acquire_client w s r = (Inr c, s1)"
    and "\<forall>t\<in>set storage_types. \<forall>e. get_metric_statistics w c b t = Inl e \<longrightarrow> is_ClientError e"
  shows "length storage_types = 15 \<and> distinct storage_types
       \<and> queries (snd (get_bucket_size w s b r)) = queries s @ map (\<lambda>t. (c, b, t)) storage_types"
proof -
  have "length storage_types = 15" by (simp add: storage_types_def)
  moreover have "distinct storage_types" by (simp add: storage_types_def)
  moreover have "queries (snd (get_bucket_size w s b r)) = queries s @ map (\<lambda>t. (c, b, t)) storage_types"
    using get_bucket_size_ok [OF assms] acquire_client_keeps [OF assms(1)] by simp
  ultimately show ?thesis by blast
qed

lemma sparse_acquire:
  "acquire_client sparse_world init_state ''us-east-1''
     = (Inr 0, \<lparr>cloudwatch_clients = [''us-east-1'' \<mapsto> 0], client_calls = [''us-east-1''],
                created = [(''us-east-1'', 0)], queries = [], printed = []\<rparr>)"
  by (simp add: acquire_client_def init_state_def world_defs)

lemma sparse_only_client_errors:
  "\<forall>t\<in>set storage_types. \<forall>e. get_metric_statistics sparse_world 0 ''logs'' t = Inl e \<longrightarrow> is_ClientError e"
  by (simp add: world_defs)

theorem storage_types_probe_witness:
  "fst (acquire_client sparse_world init_state ''us-east-1'') = Inr 0
     \<and> get_metric_statistics sparse_world 0 ''logs'' ''GlacierStorage''
         = Inl (ClientError ''InvalidParameterValue'')
     \<and> map (snd \<circ> snd) (queries (snd (get_bucket_size sparse_world init_state ''logs'' ''us-east-1'')))
         = storage_types
     \<and> length (queries (snd (get_bucket_size sparse_world init_state ''logs'' ''us-east-1''))) = 15"
  using storage_types_probe [OF sparse_acquire sparse_only_client_errors] sparse_acquire
  by (simp add: init_state_def comp_def sparse_world_def quiet_world_def)

text \<open>
  Claim C3 as stated fails when a query raises an exception that is not a \<open>ClientError\<close>:
  the loop stops at that query, the total so far (100) is lost, and the bucket resolves to 0
  with a warning, where the claimed sum is 100.
\<close>

theorem get_bucket_size_abort_counterexample:
  "fst (get_bucket_size timeout_world init_state ''logs'' ''us-east-1'') = Inr 0
     \<and> spec_bucket_size timeout_world 0 ''logs'' = 100
     \<and> printed (snd (get_bucket_size timeout_world init_state ''logs'' ''us-east-1''))
         = [SizeWarning ''logs'' (OtherException ''ReadTimeoutError'')]
     \<and> map (snd \<circ> snd) (queries (snd (get_bucket_size timeout_world init_state ''logs'' ''us-east-1'')))
         = [''StandardStorage'', ''StandardIAStorage'']"
  by (simp add: size_defs spec_bucket_size_def contribution_def world_defs)


lemma get_bucket_size_caught:
  "get_bucket_size_body w s b r = (Inl e, s2) \<Longrightarrow> is_Exception e
     \<Longrightarrow> get_bucket_size w s b r = (Inr 0, s2\<lparr>printed := printed s2 @ [SizeWarning b e]\<rparr>)"
  by (simp add: get_bucket_size_def)

lemma sum_list_all_zero: "\<forall>x\<in>set xs. f x = (0::rat) \<Longrightarrow> sum_list (map f xs) = 0"
  by (induction xs) auto

lemma spec_bucket_size_no_data:
  assumes "\<forall>t\<in>set storage_types. get_metric_statistics w c b t = Inr []"
  shows "spec_bucket_size w c b = 0"
proof -
  have "\<forall>t\<in>set storage_types. contribution w c b t = 0"
    using assms by (simp add: contribution_def latest_average_def)
  then show ?thesis
    unfolding spec_bucket_size_def by (rule sum_list_all_zero)
qed

text \<open>
  Claim C3, amended. With the client acquired: if every query either returns or raises a
  \<open>ClientError\<close>, the result is the sum of the latest averages, a query that raised or
  returned no datapoints adding zero, all queries are issued and nothing is printed; if
  some query raises another exception, the body of \<open>get_bucket_size\<close> raises an exception
  that is not a \<open>ClientError\<close>. Every exception of class \<open>Exception\<close> that the body raises,
  from a query or from the client constructor, turns the result into 0 with a warning. A
  bucket whose queries all return no datapoints resolves to 0 without a warning.
\<close>

theorem get_bucket_size_errors:
  "(acquire_client w s r = (Inr c, s1)
      \<and> (\<forall>t\<in>set storage_types. \<forall>e. get_metric_statistics w c b t = Inl e \<longrightarrow> is_ClientError e)
      \<longrightarrow> get_bucket_size w s b r
            = (Inr (spec_bucket_size w c b),
               s1\<lparr>queries := queries s1 @ map (\<lambda>t. (c, b, t)) storage_types\<rparr>))
   \<and> (acquire_client w s r = (Inr c, s1)
      \<and> (\<exists>t\<in>set storage_types. \<exists>e. get_metric_statistics w c b t = Inl e \<and> \<not> is_ClientError e)
      \<longrightarrow> (\<exists>e'. fst (get_bucket_size_body w s b r) = Inl e' \<and> \<not> is_ClientError e'))
   \<and> (get_bucket_size_body w s b r = (Inl e, s2) \<and> is_Exception e
      \<longrightarrow> get_bucket_size w s b r = (Inr 0, s2\<lparr>printed := printed s2 @ [SizeWarning b e]\<rparr>))
   \<and> (acquire_client w s r = (Inr c, s1)
      \<and> (\<forall>t\<in>set storage_types. get_metric_statistics w c b t = Inr [])
      \<longrightarrow> fst (get_bucket_size w s b r) = Inr 0
          \<and> printed (snd (get_bucket_size w s b r)) = printed s)"
proof (intro conjI impI)
  assume "acquire_client w s r = (Inr c, s1)
      \<and> (\<forall>t\<in>set storage_types. \<forall>e. get_metric_statistics w c b t = Inl e \<longrightarrow> is_ClientError e)"
  then show "get_bucket_size w s b r
            = (Inr (spec_bucket_size w c b),
               s1\<lparr>queries := queries s1 @ map (\<lambda>t. (c, b, t)) storage_types\<rparr>)"
    using get_bucket_size_ok by blast
next
  assume a: "acquire_client w s r = (Inr c, s1)
      \<and> (\<exists>t\<in>set storage_types. \<exists>e. get_metric_statistics w c b t = Inl e \<and> \<not> is_ClientError e)"
  then have "\<exists>e'. fst (query_loop w c b storage_types 0 s1) = Inl e' \<and> \<not> is_ClientError e'"
    using query_loop_fail by blast
  with a show "\<exists>e'. fst (get_bucket_size_body w s b r) = Inl e' \<and> \<not> is_ClientError e'"
    by (simp add: get_bucket_size_body_def)
next
  assume "get_bucket_size_body w s b r = (Inl e, s2) \<and> is_Exception e"
  then show "get_bucket_size w s b r = (Inr 0, s2\<lparr>printed := printed s2 @ [SizeWarning b e]\<rparr>)"
    using get_bucket_size_caught by blast
next
  assume a: "acquire_client w s r = (Inr c, s1)
      \<and> (\<forall>t\<in>set storage_types. get_metric_statistics w c b t = Inr [])"
  then have ok: "\<forall>t\<in>set storage_types. \<forall>e. get_metric_statistics w c b t = Inl e \<longrightarrow> is_ClientError e"
    by simp
  have z: "spec_bucket_size w c b = 0"
    using a spec_bucket_size_no_data by blast
  have eq: "get_bucket_size w s b r
           = (Inr (spec_bucket_size w c b),
              s1\<lparr>queries := queries s1 @ map (\<lambda>t. (c, b, t)) storage_types\<rparr>)"
    using get_bucket_size_ok [OF _ ok] a by blast
  show "fst (get_bucket_size w s b r) = Inr 0" using eq z by simp
  show "printed (snd (get_bucket_size w s b r)) = printed s"
    using eq a acquire_client_keeps [of w s r "Inr c" s1] by simp
qed

lemma quiet_acquire:
  "acquire_client quiet_world init_state ''us-east-1''
     = (Inr 0, \<lparr>cloudwatch_clients = [''us-east-1'' \<mapsto> 0], client_calls = [''us-east-1''],
                created = [(''us-east-1'', 0)], queries = [], printed = []\<rparr>)"
  by (simp add: acquire_client_def init_state_def world_defs)

lemma timeout_acquire:
  "acquire_client timeout_world init_state ''us-east-1''
     = (Inr 0, \<lparr>cloudwatch_clients = [''us-east-1'' \<mapsto> 0], client_calls = [''us-east-1''],
                created = [(''us-east-1'', 0)], queries = [], printed = []\<rparr>)"
  by (simp add: acquire_client_def init_state_def world_defs)

lemma timeout_body:
  "get_bucket_size_body timeout_world init_state ''logs'' ''us-east-1''
     = (Inl (OtherException ''ReadTimeoutError''),
        \<lparr>cloudwatch_clients = [''us-east-1'' \<mapsto> 0], client_calls = [''us-east-1''],
         created = [(''us-east-1'', 0)],
         queries = [(0, ''logs'', ''StandardStorage''), (0, ''logs'', ''StandardIAStorage'')],
         printed = []\<rparr>)"
  by (simp add: get_bucket_size_body_def timeout_acquire storage_types_def)
     (simp add: world_defs latest_average_def sort_reverse_def)

lemma sparse_spec_size: "spec_bucket_size sparse_world 0 ''logs'' = 350"
  by (simp add: spec_bucket_size_def contribution_def storage_types_def world_defs
      latest_average_def sort_reverse_def)

theorem get_bucket_size_errors_witness:
  "fst (get_bucket_size sparse_world init_state ''logs'' ''us-east-1'') = Inr 350
     \<and> get_metric_statistics sparse_world 0 ''logs'' ''GlacierStorage''
         = Inl (ClientError ''InvalidParameterValue'')
     \<and> get_metric_statistics timeout_world 0 ''logs'' ''StandardIAStorage''
         = Inl (OtherException ''ReadTimeoutError'')
     \<and> fst (get_bucket_size timeout_world init_state ''logs'' ''us-east-1'') = Inr 0
     \<and> printed (snd (get_bucket_size timeout_world init_state ''logs'' ''us-east-1''))
         = [SizeWarning ''logs'' (OtherException ''ReadTimeoutError'')]
     \<and> fst (get_bucket_size quiet_world init_state ''logs'' ''us-east-1'') = Inr 0
     \<and> printed (snd (get_bucket_size quiet_world init_state ''logs'' ''us-east-1'')) = []"
proof -
  have a: "fst (get_bucket_size sparse_world init_state ''logs'' ''us-east-1'') = Inr 350"
    using get_bucket_size_errors [of sparse_world init_state "''us-east-1''" 0 _ "''logs''",
        THEN conjunct1] sparse_acquire sparse_only_client_errors sparse_spec_size
    by simp
  have b: "get_metric_statistics sparse_world 0 ''logs'' ''GlacierStorage''
         = Inl (ClientError ''InvalidParameterValue'')"
    by (simp add: world_defs)
  have c: "get_metric_statistics timeout_world 0 ''logs'' ''StandardIAStorage''
         = Inl (OtherException ''ReadTimeoutError'')"
    by (simp add: world_defs)
  have d: "get_bucket_size timeout_world init_state ''logs'' ''us-east-1''
         = (Inr 0, \<lparr>cloudwatch_clients = [''us-east-1'' \<mapsto> 0], client_calls = [''us-east-1''],
         created = [(''us-east-1'', 0)],
         queries = [(0, ''logs'', ''StandardStorage''), (0, ''logs'', ''StandardIAStorage'')],
         printed = []\<rparr>\<lparr>printed := [] @ [SizeWarning ''logs'' (OtherException ''ReadTimeoutError'')]\<rparr>)"
    using get_bucket_size_errors [where w = timeout_world and s = init_state
          and r = "''us-east-1''" and b = "''logs''" and e = "OtherException ''ReadTimeoutError''"
          and ?s2.0 = "\<lparr>cloudwatch_clients = [''us-east-1'' \<mapsto> 0], client_calls = [''us-east-1''],
         created = [(''us-east-1'', 0)],
         queries = [(0, ''logs'', ''StandardStorage''), (0, ''logs'', ''StandardIAStorage'')],
         printed = []\<rparr>",
        THEN conjunct2, THEN conjunct2, THEN conjunct1] timeout_body
    by simp
  have e: "fst (get_bucket_size quiet_world init_state ''logs'' ''us-east-1'') = Inr 0
     \<and> printed (snd (get_bucket_size quiet_world init_state ''logs'' ''us-east-1'')) = []"
    using get_bucket_size_errors [of quiet_world init_state "''us-east-1''" 0 _ "''logs''",
        THEN conjunct2, THEN conjunct2, THEN conjunct2] quiet_acquire
    by (simp add: world_defs init_state_def)
  show ?thesis using a b c d e by simp
qed

section \<open>The rollup aggregator\<close>

lemma sort_reverse_mset: "mset (sort_reverse key xs) = mset xs"
  by (simp add: sort_reverse_def)

lemma sort_reverse_descending:
  "sorted_wrt (\<lambda>a b. key b \<le> key a) (sort_reverse key xs)"
proof -
  have "sorted (map key (sort_key key (rev xs)))"
    by (rule sorted_sort_key)
  then have "sorted_wrt (\<lambda>a b. key a \<le> key b) (sort_key key (rev xs))"
    by (simp add: sorted_map)
  then show ?thesis
    by (simp add: sort_reverse_def sorted_wrt_rev)
qed

lemma sort_reverse_stable:
  "filter (\<lambda>x. key x = k) (sort_reverse key xs) = filter (\<lambda>x. key x = k) xs"
proof -
  have "filter (\<lambda>x. key x = k) (sort_key key (rev xs)) = filter (\<lambda>x. key x = k) (rev xs)"
    by (rule sort_key_stable)
  then have "rev (filter (\<lambda>x. key x = k) (sort_key key (rev xs))) = filter (\<lambda>x. key x = k) xs"
    by (simp add: rev_filter)
  then show ?thesis
    by (simp add: sort_reverse_def rev_filter)
qed

text \<open>
  Claim C7. For every list of bucket records, the list that \<open>main\<close> prints, the records
  sorted with key \<open>size\<close> and \<open>reverse=True\<close>, is a permutation of the input, is in
  descending order of size, and keeps the records of equal size in their input order. As
  the result is a function of the input list, equal inputs give equal outputs.
\<close>

theorem sorted_records_stable_descending:
  "mset (sort_reverse bsize recs) = mset recs
   \<and> sorted_wrt (\<lambda>a b. bsize b \<le> bsize a) (sort_reverse bsize recs)
   \<and> (\<forall>k. filter (\<lambda>r. bsize r = k) (sort_reverse bsize recs) = filter (\<lambda>r. bsize r = k) recs)"
  using sort_reverse_mset [of bsize recs] sort_reverse_descending [of bsize recs]
    sort_reverse_stable [of bsize _ recs]
  by blast

lemma sort_reverse_example:
  "map name (sort_reverse bsize
     [\<lparr>name = ''a'', bsize = 500, region = ''r'', created_at = 1\<rparr>,
      \<lparr>name = ''b'', bsize = 1500, region = ''q'', created_at = 2\<rparr>,
      \<lparr>name = ''c'', bsize = 500, region = ''r'', created_at = 3\<rparr>,
      \<lparr>name = ''d'', bsize = 0, region = ''r'', created_at = 3\<rparr>]) = [''b'', ''a'', ''c'', ''d'']"
  by (simp add: sort_reverse_def)











lemma region_rollups_example:
  "region_lines (region_loop
     [\<lparr>name = ''b'', bsize = 1500, region = ''other'', created_at = 2\<rparr>,
      \<lparr>name = ''a'', bsize = 500, region = ''default'', created_at = 1\<rparr>,
      \<lparr>name = ''c'', bsize = 0, region = ''default'', created_at = 3\<rparr>] [])
   = [\<lparr>rollup_region = ''default'', bucketCount = 2, totalSizeBytes = 500\<rparr>,
      \<lparr>rollup_region = ''other'', bucketCount = 1, totalSizeBytes = 1500\<rparr>]"
  by (simp add: region_lines_def)












section \<open>The regional client cache\<close>


lemma cache_inv_mono: "cache_inv w B s \<Longrightarrow> B \<subseteq> B' \<Longrightarrow> cache_inv w B' s"
  unfolding cache_inv_def by blast















end
